theory Spec2Isabelle
  imports Complex_Main
begin

section \<open>KiBot: the \<open>pcb_print\<close> and \<open>blender_export\<close> outputs\<close>

text \<open>
  A shallow embedding of \<^verbatim>\<open>kibot/out_pcb_print.py\<close> and
  \<^verbatim>\<open>kibot/out_blender_export.py\<close>. Python exceptions are values of
  \<open>error\<close>; a function that raises returns \<open>Inl\<close>. Python floats are
  idealised as rationals (rounding is not modelled). The file system is an explicit
  store that every function takes and returns.
\<close>

subsection \<open>Exceptions\<close>

datatype error =
    KiPlotConfigurationError string
  | IOError string
  | ValueError string
  | KeyError string
  | IndexError string
  | UnboundLocalError string
  | TypeError string
  | AttributeError string


subsection \<open>PDF documents as the PDF library presents them\<close>

text \<open>
  An operand of a content-stream operation. \<open>NumberObject\<close> is a Python \<open>int\<close>,
  \<open>FloatObject\<close> a decimal number; every other kind of object (names, strings,
  arrays, booleans, null) compares unequal to a Python number.
\<close>

datatype pdf_object =
    NumberObject int
  | FloatObject rat
  | OtherObject string

type_synonym operation = "pdf_object list \<times> string"

text \<open>
  A page: its \<^verbatim>\<open>/Contents\<close> entry, parsed into operations
  (\<open>None\<close> when the page dictionary has no such key), and the rest of the page
  dictionary, kept opaque.
\<close>

record page =
  contents :: "operation list option"
  other_entries :: string

type_synonym pdf = "page list"

subsection \<open>The file system\<close>

datatype node = File pdf | Dir

type_synonym fsys = "string \<Rightarrow> node option"

definition isabs :: "string \<Rightarrow> bool" where
  "isabs p = (case p of [] \<Rightarrow> False | c # _ \<Rightarrow> c = CHR ''/'')"

text \<open>\<^verbatim>\<open>os.path.join(a, b)\<close> for two components, POSIX flavour.\<close>

definition path_join :: "string \<Rightarrow> string \<Rightarrow> string" where
  "path_join a b =
     (if isabs b then b
      else if a = [] \<or> last a = CHR ''/'' then a @ b
      else a @ ''/'' @ b)"

text \<open>
  \<^verbatim>\<open>shutil.rmtree(d)\<close> removes the directory \<open>d\<close> and every path below
  it; it raises when \<open>d\<close> is not a directory.
\<close>

definition in_tree :: "string \<Rightarrow> string \<Rightarrow> bool" where
  "in_tree d p =
     (p = d \<or> (if d = [] \<or> last d = CHR ''/'' then take (length d) p = d
                else take (length d + 1) p = d @ ''/''))"

definition rmtree :: "string \<Rightarrow> fsys \<Rightarrow> error + fsys" where
  "rmtree d fs =
     (case fs d of
        Some Dir \<Rightarrow> Inr (\<lambda>p. if in_tree d p then None else fs p)
      | Some (File x) \<Rightarrow> Inl (IOError (''[Errno 20] Not a directory: '' @ d))
      | None \<Rightarrow> Inl (IOError (''[Errno 2] No such file or directory: '' @ d)))"

text \<open>
  \<^verbatim>\<open>open(path, 'rb')\<close> followed by reading the document. The message is
  what \<^verbatim>\<open>str(e)\<close> gives for the \<^verbatim>\<open>OSError\<close> raised.
\<close>

definition open_rb :: "fsys \<Rightarrow> string \<Rightarrow> error + pdf" where
  "open_rb fs path =
     (case fs path of
        None \<Rightarrow> Inl (IOError (''[Errno 2] No such file or directory: '' @ path))
      | Some Dir \<Rightarrow> Inl (IOError (''[Errno 21] Is a directory: '' @ path))
      | Some (File d) \<Rightarrow> Inr d)"

text \<open>\<^verbatim>\<open>open(path, 'wb')\<close> followed by writing the whole document.\<close>

definition open_wb_write :: "fsys \<Rightarrow> string \<Rightarrow> pdf \<Rightarrow> error + fsys" where
  "open_wb_write fs path d =
     (case fs path of
        Some Dir \<Rightarrow> Inl (IOError (''[Errno 21] Is a directory: '' @ path))
      | _ \<Rightarrow> Inr (fs(path \<mapsto> File d)))"

text \<open>\<^verbatim>\<open>getPage(0)\<close> of a reader.\<close>

definition getPage0 :: "pdf \<Rightarrow> error + page" where
  "getPage0 d = (case d of [] \<Rightarrow> Inl (IndexError ''list index out of range'') | p # _ \<Rightarrow> Inr p)"

subsection \<open>Colours\<close>

type_synonym color = "rat \<times> rat \<times> rat"

definition hex_digit :: "char \<Rightarrow> int option" where
  "hex_digit c =
     (let n = (of_char c :: nat) in
      if 48 \<le> n \<and> n \<le> 57 then Some (int n - 48)
      else if 97 \<le> n \<and> n \<le> 102 then Some (int n - 87)
      else if 65 \<le> n \<and> n \<le> 70 then Some (int n - 55)
      else None)"

definition is_hex :: "string \<Rightarrow> bool" where
  "is_hex s = (s \<noteq> [] \<and> list_all (\<lambda>c. hex_digit c \<noteq> None) s)"

text \<open>
  \<^verbatim>\<open>int(s, 16)\<close> on a string of hexadecimal digits, and on the empty string,
  where Python raises \<^verbatim>\<open>ValueError\<close>. Python also accepts a sign,
  surrounding white space, a \<^verbatim>\<open>0x\<close> prefix and single underscores between
  digits; those forms are outside this model, which is used only at colours made of
  \<^verbatim>\<open>#\<close> and hexadecimal digits (see \<open>valid_color\<close>).
\<close>

definition int16 :: "string \<Rightarrow> error + int" where
  "int16 s =
     (if is_hex s then Inr (foldl (\<lambda>acc c. 16 * acc + the (hex_digit c)) 0 s)
      else Inl (ValueError (''invalid literal for int() with base 16: '' @ s)))"

text \<open>\<^verbatim>\<open>value.lstrip('#')\<close>\<close>

definition lstrip_hash :: "string \<Rightarrow> string" where
  "lstrip_hash s = dropWhile (\<lambda>c. c = CHR ''#'') s"

text \<open>The slice \<^verbatim>\<open>value[i:i+2]\<close>; a Python slice never raises.\<close>

definition slice2 :: "string \<Rightarrow> nat \<Rightarrow> string" where
  "slice2 v i = take 2 (drop i v)"

definition hex_to_rgb :: "string \<Rightarrow> error + (color \<times> rat)" where
  "hex_to_rgb value0 =
     (let v = lstrip_hash value0 in
      case int16 (slice2 v 0) of Inl e \<Rightarrow> Inl e | Inr r \<Rightarrow>
      case int16 (slice2 v 2) of Inl e \<Rightarrow> Inl e | Inr g \<Rightarrow>
      case int16 (slice2 v 4) of Inl e \<Rightarrow> Inl e | Inr b \<Rightarrow>
      let rgb = (of_int r / 255, of_int g / 255, of_int b / 255) in
      if length v = 8 then
        (case int16 (drop 6 v) of Inl e \<Rightarrow> Inl e | Inr a \<Rightarrow> Inr (rgb, of_int a / 255))
      else Inr (rgb, 1))"

definition to_gray :: "color \<Rightarrow> color" where
  "to_gray c =
     (case c of (c0, c1, c2) \<Rightarrow> let avg = (c0 + c1 + c2) / 3 in (avg, avg, avg))"

subsection \<open>\<open>colorize_pdf\<close>\<close>

text \<open>Python's \<^verbatim>\<open>x == 0\<close> for an operand \<open>x\<close>.\<close>

fun eq_zero :: "pdf_object \<Rightarrow> bool" where
  "eq_zero (NumberObject n) = (n = 0)"
| "eq_zero (FloatObject q) = (q = 0)"
| "eq_zero (OtherObject s) = False"

text \<open>\<^verbatim>\<open>operands == [0, 0, 0]\<close>: lists are equal when they have the same
  length and equal elements.\<close>

definition eq_000 :: "pdf_object list \<Rightarrow> bool" where
  "eq_000 operands =
     (case operands of [a, b, c] \<Rightarrow> eq_zero a \<and> eq_zero b \<and> eq_zero c | _ \<Rightarrow> False)"

definition color_operands :: "color \<Rightarrow> pdf_object list" where
  "color_operands c = (case c of (c0, c1, c2) \<Rightarrow> [FloatObject c0, FloatObject c1, FloatObject c2])"

text \<open>
  The inner loop of \<open>colorize_pdf\<close>: the iteration runs over
  \<^verbatim>\<open>content.operations\<close> while the counter \<open>i\<close> indexes the same list, which
  is updated in place.
\<close>

function colorize_operations :: "nat \<Rightarrow> operation list \<Rightarrow> color \<Rightarrow> operation list" where
  "colorize_operations i ops c =
     (if i < length ops then
        (case ops ! i of (operands, operator) \<Rightarrow>
           if operator = ''rg'' \<or> operator = ''RG'' then
             (if eq_000 operands
              then colorize_operations (i + 1) (ops[i := (color_operands c, snd (ops ! i))]) c
              else colorize_operations (i + 1) ops c)
           else colorize_operations (i + 1) ops c)
      else ops)"
  by pat_completeness auto
termination
  by (relation "measure (\<lambda>(i, ops, c). length ops - i)") auto

declare colorize_operations.simps [simp del]

text \<open>One iteration of the page loop: the page with its contents replaced.\<close>

definition colorize_page :: "color \<Rightarrow> page \<Rightarrow> error + page" where
  "colorize_page c p =
     (case contents p of
        None \<Rightarrow> Inl (KeyError ''/Contents'')
      | Some ops \<Rightarrow> Inr (p\<lparr>contents := Some (colorize_operations 0 ops c)\<rparr>))"

text \<open>The page loop, collecting the pages added to the writer.\<close>

fun colorize_pages :: "color \<Rightarrow> page list \<Rightarrow> page list \<Rightarrow> error + page list" where
  "colorize_pages c [] output = Inr output"
| "colorize_pages c (p # ps) output =
     (case colorize_page c p of
        Inl e \<Rightarrow> Inl e
      | Inr p' \<Rightarrow> colorize_pages c ps (output @ [p']))"

text \<open>
  \<open>colorize_pdf\<close>. \<open>er\<close> holds \<^verbatim>\<open>str(e)\<close> of a caught exception and is
  tested for truth, that is, for being a non-empty string.
\<close>

definition str_of_error :: "error \<Rightarrow> string" where
  "str_of_error e =
     (case e of KiPlotConfigurationError m \<Rightarrow> m | IOError m \<Rightarrow> m | ValueError m \<Rightarrow> m
      | KeyError m \<Rightarrow> m | IndexError m \<Rightarrow> m | UnboundLocalError m \<Rightarrow> m | TypeError m \<Rightarrow> m
      | AttributeError m \<Rightarrow> m)"

text \<open>The exceptions caught by \<^verbatim>\<open>except (IOError, ValueError, EOFError)\<close>.\<close>

fun caught :: "error \<Rightarrow> bool" where
  "caught (IOError m) = True"
| "caught (ValueError m) = True"
| "caught e = False"

text \<open>
  What an \<^verbatim>\<open>except (IOError, ValueError, EOFError) as e: er = str(e)\<close>
  clause followed by \<^verbatim>\<open>if er: raise KiPlotConfigurationError(...)\<close> makes
  of an exception \<open>e\<close>: \<open>Some\<close> of the exception that leaves the function,
  \<open>None\<close> when the exception is swallowed (caught, with an empty message).
\<close>

definition reraise :: "string \<Rightarrow> string \<Rightarrow> error \<Rightarrow> error option" where
  "reraise what name e =
     (if caught e then
        (if str_of_error e \<noteq> [] then
           Some (KiPlotConfigurationError (what @ '' `'' @ name @ ''` ('' @ str_of_error e @ '')''))
         else None)
      else Some e)"

definition colorize_pdf :: "fsys \<Rightarrow> string \<Rightarrow> string \<Rightarrow> string \<Rightarrow> color \<Rightarrow> (error + unit) \<times> fsys" where
  "colorize_pdf fs folder in_file out_file c =
     (case open_rb fs (path_join folder in_file) of
        Inl e \<Rightarrow>
          (case reraise ''Error reading'' in_file e of Some e' \<Rightarrow> (Inl e', fs) | None \<Rightarrow> (Inr (), fs))
      | Inr source \<Rightarrow>
          (case colorize_pages c source [] of
             Inl e \<Rightarrow>
               (case reraise ''Error reading'' in_file e of Some e' \<Rightarrow> (Inl e', fs) | None \<Rightarrow> (Inr (), fs))
           | Inr output \<Rightarrow>
               (case open_wb_write fs (path_join folder out_file) output of
                  Inl e \<Rightarrow>
                    (case reraise ''Error creating'' out_file e of
                       Some e' \<Rightarrow> (Inl e', fs) | None \<Rightarrow> (Inr (), fs))
                | Inr fs' \<Rightarrow> (Inr (), fs'))))"

text \<open>
  The substitution as the specification words it: an operation is replaced when its
  operator is \<^verbatim>\<open>rg\<close> or \<^verbatim>\<open>RG\<close> and its operands are
  \<^verbatim>\<open>[0, 0, 0]\<close>; the new operands are the three colour components and the
  operator stays.
\<close>

definition recolor :: "color \<Rightarrow> operation \<Rightarrow> operation" where
  "recolor c op =
     (case op of (operands, operator) \<Rightarrow>
        if (operator = ''rg'' \<or> operator = ''RG'') \<and> eq_000 operands
        then (color_operands c, operator) else (operands, operator))"

definition recolor_page :: "color \<Rightarrow> page \<Rightarrow> page" where
  "recolor_page c p = p\<lparr>contents := Some (map (recolor c) (the (contents p)))\<rparr>"

subsection \<open>\<open>merge_pdf\<close> and \<open>create_pdf_from_pages\<close>\<close>

text \<open>
  The PDF library's \<^verbatim>\<open>mergePage\<close> and \<^verbatim>\<open>compressContentStreams\<close>
  are parameters. The library resolves objects lazily from the input files, which stay
  open until the end; the model reads a document when it is opened, which is the same
  as long as the output path is none of the input paths.

  One iteration of the loop of \<open>merge_pdf\<close>, inside the \<^verbatim>\<open>try\<close>: the
  new values of \<open>i\<close> and \<open>merged_page\<close> (\<open>None\<close> while the variable is
  unbound).
\<close>

definition merge_step ::
  "(page \<Rightarrow> page \<Rightarrow> page) \<Rightarrow> fsys \<Rightarrow> string \<Rightarrow> string \<Rightarrow> nat \<Rightarrow> page option
     \<Rightarrow> error + (nat \<times> page option)" where
  "merge_step mergePage fs input_folder filename i merged_page =
     (case open_rb fs (path_join input_folder filename) of
        Inl e \<Rightarrow> Inl e
      | Inr pdf_reader \<Rightarrow>
          (case getPage0 pdf_reader of
             Inl e \<Rightarrow> Inl e
           | Inr page_obj \<Rightarrow>
               if i = 0 then Inr (i + 1, Some page_obj)
               else (case merged_page of
                       None \<Rightarrow> Inl (UnboundLocalError ''merged_page'')
                     | Some m \<Rightarrow> Inr (i + 1, Some (mergePage m page_obj)))))"

fun merge_loop ::
  "(page \<Rightarrow> page \<Rightarrow> page) \<Rightarrow> fsys \<Rightarrow> string \<Rightarrow> string list \<Rightarrow> nat \<Rightarrow> page option
     \<Rightarrow> error + page option" where
  "merge_loop mergePage fs input_folder [] i merged_page = Inr merged_page"
| "merge_loop mergePage fs input_folder (filename # rest) i merged_page =
     (case merge_step mergePage fs input_folder filename i merged_page of
        Inl e \<Rightarrow>
          (case reraise ''Error reading'' filename e of
             Some e' \<Rightarrow> Inl e'
           | None \<Rightarrow> merge_loop mergePage fs input_folder rest i merged_page)
      | Inr (i', merged_page') \<Rightarrow> merge_loop mergePage fs input_folder rest i' merged_page')"

text \<open>The tail shared by both functions: write the writer's pages to a file.\<close>

definition write_output :: "fsys \<Rightarrow> string \<Rightarrow> string \<Rightarrow> pdf \<Rightarrow> (error + unit) \<times> fsys" where
  "write_output fs path name output =
     (case open_wb_write fs path output of
        Inl e \<Rightarrow>
          (case reraise ''Error creating'' name e of
             Some e' \<Rightarrow> (Inl e', fs) | None \<Rightarrow> (Inr (), fs))
      | Inr fs' \<Rightarrow> (Inr (), fs'))"

definition merge_pdf ::
  "(page \<Rightarrow> page \<Rightarrow> page) \<Rightarrow> fsys \<Rightarrow> string \<Rightarrow> string list \<Rightarrow> string \<Rightarrow> string
     \<Rightarrow> (error + unit) \<times> fsys" where
  "merge_pdf mergePage fs input_folder input_files output_folder output_file =
     (case merge_loop mergePage fs input_folder input_files 0 None of
        Inl e \<Rightarrow> (Inl e, fs)
      | Inr None \<Rightarrow> (Inl (UnboundLocalError ''merged_page''), fs)
      | Inr (Some merged_page) \<Rightarrow>
          write_output fs (path_join output_folder output_file) output_file [merged_page])"

definition page_step :: "(page \<Rightarrow> page) \<Rightarrow> fsys \<Rightarrow> string \<Rightarrow> string \<Rightarrow> error + page" where
  "page_step compressContentStreams fs input_folder filename =
     (case open_rb fs (path_join input_folder filename) of
        Inl e \<Rightarrow> Inl e
      | Inr pdf_reader \<Rightarrow>
          (case getPage0 pdf_reader of
             Inl e \<Rightarrow> Inl e
           | Inr page_obj \<Rightarrow> Inr (compressContentStreams page_obj)))"

fun pages_loop ::
  "(page \<Rightarrow> page) \<Rightarrow> fsys \<Rightarrow> string \<Rightarrow> string list \<Rightarrow> page list \<Rightarrow> error + page list" where
  "pages_loop compressContentStreams fs input_folder [] output = Inr output"
| "pages_loop compressContentStreams fs input_folder (filename # rest) output =
     (case page_step compressContentStreams fs input_folder filename of
        Inl e \<Rightarrow>
          (case reraise ''Error reading'' filename e of
             Some e' \<Rightarrow> Inl e'
           | None \<Rightarrow> pages_loop compressContentStreams fs input_folder rest output)
      | Inr p \<Rightarrow> pages_loop compressContentStreams fs input_folder rest (output @ [p]))"

definition create_pdf_from_pages ::
  "(page \<Rightarrow> page) \<Rightarrow> fsys \<Rightarrow> string \<Rightarrow> string list \<Rightarrow> string \<Rightarrow> (error + unit) \<times> fsys" where
  "create_pdf_from_pages compressContentStreams fs input_folder input_files output_fn =
     (case pages_loop compressContentStreams fs input_folder input_files [] of
        Inl e \<Rightarrow> (Inl e, fs)
      | Inr output \<Rightarrow> write_output fs output_fn output_fn output)"



subsection \<open>\<open>colorize_layer\<close>\<close>

definition colorize_layer ::
  "string \<Rightarrow> string \<Rightarrow> string \<Rightarrow> bool \<Rightarrow> string list \<Rightarrow> string \<Rightarrow> fsys
     \<Rightarrow> (error + string list) \<times> fsys" where
  "colorize_layer pcb_basename suffix color monochrome filelist temp_dir fs =
     (let in_file = pcb_basename @ ''-'' @ suffix @ ''.pdf'' in
      if color \<noteq> ''#000000'' then
        (let out_file = pcb_basename @ ''-'' @ suffix @ ''-colored.pdf'' in
         case hex_to_rgb color of
           Inl e \<Rightarrow> (Inl e, fs)
         | Inr (rgb, alpha) \<Rightarrow>
             (let color' = (if \<not> monochrome then rgb else to_gray rgb) in
              case colorize_pdf fs temp_dir in_file out_file color' of
                (Inl e, fs') \<Rightarrow> (Inl e, fs')
              | (Inr u, fs') \<Rightarrow> (Inr (filelist @ [out_file]), fs')))
      else (Inr (filelist @ [in_file]), fs))"

text \<open>
  The colours \<open>hex_to_rgb\<close> is written for: \<^verbatim>\<open>#\<close> followed by six
  hexadecimal digits, or by eight when an alpha channel is given.
\<close>

definition valid_color :: "string \<Rightarrow> bool" where
  "valid_color s =
     (case s of
        [] \<Rightarrow> False
      | c # ds \<Rightarrow> c = CHR ''#'' \<and> (length ds = 6 \<or> length ds = 8)
                  \<and> list_all (\<lambda>d. hex_digit d \<noteq> None) ds)"

text \<open>The value of the two hexadecimal digits at positions \<open>i\<close> and \<open>i + 1\<close>
  behind the \<^verbatim>\<open>#\<close>.\<close>

definition channel :: "string \<Rightarrow> nat \<Rightarrow> rat" where
  "channel s i =
     of_int (16 * the (hex_digit (s ! (i + 1))) + the (hex_digit (s ! (i + 2)))) / 255"

definition decoded_rgb :: "string \<Rightarrow> color" where
  "decoded_rgb s = (channel s 0, channel s 2, channel s 4)"

definition decoded_alpha :: "string \<Rightarrow> rat" where
  "decoded_alpha s = (if length s = 9 then channel s 6 else 1)"

definition gray_of :: "color \<Rightarrow> color" where
  "gray_of c = (case c of (r, g, b) \<Rightarrow> ((r + g + b) / 3, (r + g + b) / 3, (r + g + b) / 3))"

subsection \<open>Options of the \<open>pcb_print\<close> output\<close>

text \<open>
  An attribute that holds a class until the configuration replaces it by a list is an
  \<open>option\<close>: \<open>None\<close> is the class. \<open>_drill_marks\<close> is a name before
  \<open>config\<close> and KiCad's code after it.
\<close>

datatype drill = DrillName string | DrillCode int

record layer_options =
  la_id :: int
  la_layer :: string
  la_suffix :: string
  la_color :: string
  la_plot_footprint_refs :: bool
  la_plot_footprint_values :: bool
  la_force_plot_invisible_refs_vals :: bool

record pages_options =
  pg_mirror :: bool
  pg_monochrome :: bool
  pg_scaling :: rat
  pg_title :: string
  pg_sheet :: string
  pg_sheet_reference_color :: string
  pg_line_width :: rat
  pg_negative_plot :: bool
  pg_exclude_pads_from_silkscreen :: bool
  pg_tent_vias :: bool
  pg_layers :: "layer_options list option"

record color_theme =
  pcb_frame :: string
  layer_id2color :: "int \<Rightarrow> string option"

record pcb_print_options =
  pp_output :: string
  pp_hide_excluded :: bool
  pp_drill_marks :: drill
  pp_color_theme :: string
  pp_plot_sheet_reference :: bool
  pp_pages :: "pages_options list option"
  pp_title :: string
  pp_color_theme_obj :: "color_theme option"

subsection \<open>The plotting engine and the other external parts\<close>

record plot_options =
  OutputDirectory :: string
  ExcludeEdgeLayer :: bool
  UseAuxOrigin :: bool
  AutoScale :: bool
  DrillMarksType :: drill
  PlotFrameRef :: bool
  Mirror :: bool
  Scale :: rat
  Negative :: bool
  PlotViaOnMaskLayer :: bool
  LineWidth :: int
  PlotPadsOnSilkLayer :: bool
  PlotReference :: bool
  PlotValue :: bool
  PlotInvisibleText :: bool

text \<open>
  What \<open>generate_output\<close> calls and does not define. \<open>PlotLayer\<close> stands for
  \<^verbatim>\<open>SetLayer\<close>, \<^verbatim>\<open>OpenPlotfile\<close> and \<^verbatim>\<open>PlotLayer\<close> of the
  plot controller: given the board, the plot options, the layer, the suffix of the
  file name and the sheet, it changes the file system. \<open>'b\<close> is the board.
\<close>

record 'b externals =
  GetPlotOptions :: "'b \<Rightarrow> plot_options"
  PlotLayer :: "'b \<Rightarrow> plot_options \<Rightarrow> int \<Rightarrow> string \<Rightarrow> string \<Rightarrow> fsys \<Rightarrow> fsys"
  FromMM :: "rat \<Rightarrow> int"
  set_title :: "string \<Rightarrow> 'b \<Rightarrow> 'b"
  restore_title :: "'b \<Rightarrow> 'b"
  mergePage :: "page \<Rightarrow> page \<Rightarrow> page"
  compressContentStreams :: "page \<Rightarrow> page"

text \<open>The globals \<^verbatim>\<open>GS.pcb_basename\<close>, \<^verbatim>\<open>GS.ki5()\<close> and the
  identifier of \<^verbatim>\<open>GS.work_layer\<close>.\<close>

record gs =
  pcb_basename :: string
  ki5 :: bool
  work_layer_id :: int

text \<open>
  The state \<open>generate_output\<close> works on: the file system, the board, and the
  sequence of the calls made so far, one entry per call, in the order of the calls.
\<close>

datatype event =
    Mkdtemp string
  | SetTitle string
  | Plot int string string
  | ClosePlot
  | ColorizeLayer string string bool
  | MergePdf "string list" string
  | RestoreTitle
  | CreatePdfFromPages "string list" string
  | Rmtree string

record 'b world =
  files :: fsys
  board :: 'b
  trace :: "event list"

definition and_then ::
  "(error + 'a) \<times> 's \<Rightarrow> ('a \<Rightarrow> 's \<Rightarrow> (error + 'c) \<times> 's) \<Rightarrow> (error + 'c) \<times> 's" where
  "and_then r f = (case r of (Inl e, s) \<Rightarrow> (Inl e, s) | (Inr a, s) \<Rightarrow> f a s)"

text \<open>\<^verbatim>\<open>str(n)\<close> for a natural number.\<close>

fun str_nat :: "nat \<Rightarrow> string" where
  "str_nat n =
     (if n < 10 then [char_of (48 + n)]
      else str_nat (n div 10) @ [char_of (48 + n mod 10)])"

declare str_nat.simps [simp del]

subsection \<open>\<open>generate_output\<close>\<close>

definition plot_layer ::
  "'b externals \<Rightarrow> plot_options \<Rightarrow> int \<Rightarrow> string \<Rightarrow> string \<Rightarrow> 'b world \<Rightarrow> 'b world" where
  "plot_layer ex po layer_id suffix sheet w =
     w\<lparr>files := PlotLayer ex (board w) po layer_id suffix sheet (files w),
       trace := trace w @ [Plot layer_id suffix sheet]\<rparr>"

text \<open>Step 1, the loop over the layers of a page.\<close>

fun plot_layers ::
  "'b externals \<Rightarrow> string \<Rightarrow> layer_options list \<Rightarrow> plot_options \<Rightarrow> 'b world
     \<Rightarrow> plot_options \<times> 'b world" where
  "plot_layers ex sheet [] po w = (po, w)"
| "plot_layers ex sheet (la # las) po w =
     (let po' = po\<lparr>PlotReference := la_plot_footprint_refs la,
                    PlotValue := la_plot_footprint_values la,
                    PlotInvisibleText := la_force_plot_invisible_refs_vals la\<rparr>
      in plot_layers ex sheet las po' (plot_layer ex po' (la_id la) (la_suffix la) sheet w))"

definition colorize_layer_w ::
  "string \<Rightarrow> string \<Rightarrow> string \<Rightarrow> bool \<Rightarrow> string list \<Rightarrow> string \<Rightarrow> 'b world
     \<Rightarrow> (error + string list) \<times> 'b world" where
  "colorize_layer_w basename suffix color monochrome filelist temp_dir w =
     (case colorize_layer basename suffix color monochrome filelist temp_dir (files w) of
        (r, fs') \<Rightarrow>
          (r, w\<lparr>files := fs', trace := trace w @ [ColorizeLayer suffix color monochrome]\<rparr>))"

text \<open>Step 3, the loop over the layers of a page.\<close>

fun colorize_layers ::
  "string \<Rightarrow> bool \<Rightarrow> string \<Rightarrow> layer_options list \<Rightarrow> string list \<Rightarrow> 'b world
     \<Rightarrow> (error + string list) \<times> 'b world" where
  "colorize_layers basename monochrome temp_dir [] filelist w = (Inr filelist, w)"
| "colorize_layers basename monochrome temp_dir (la # las) filelist w =
     and_then (colorize_layer_w basename (la_suffix la) (la_color la) monochrome filelist temp_dir w)
       (\<lambda>filelist' w'. colorize_layers basename monochrome temp_dir las filelist' w')"

definition merge_pdf_w ::
  "'b externals \<Rightarrow> string \<Rightarrow> string list \<Rightarrow> string \<Rightarrow> string \<Rightarrow> 'b world
     \<Rightarrow> (error + unit) \<times> 'b world" where
  "merge_pdf_w ex input_folder input_files output_folder output_file w =
     (case merge_pdf (mergePage ex) (files w) input_folder input_files output_folder output_file of
        (r, fs') \<Rightarrow> (r, w\<lparr>files := fs', trace := trace w @ [MergePdf input_files output_file]\<rparr>))"

definition create_pdf_from_pages_w ::
  "'b externals \<Rightarrow> string \<Rightarrow> string list \<Rightarrow> string \<Rightarrow> 'b world \<Rightarrow> (error + unit) \<times> 'b world" where
  "create_pdf_from_pages_w ex input_folder input_files output_fn w =
     (case create_pdf_from_pages (compressContentStreams ex) (files w) input_folder input_files output_fn of
        (r, fs') \<Rightarrow>
          (r, w\<lparr>files := fs', trace := trace w @ [CreatePdfFromPages input_files output_fn]\<rparr>))"

definition rmtree_w :: "string \<Rightarrow> 'b world \<Rightarrow> (error + unit) \<times> 'b world" where
  "rmtree_w d w =
     (case rmtree d (files w) of
        Inl e \<Rightarrow> (Inl e, w\<lparr>trace := trace w @ [Rmtree d]\<rparr>)
      | Inr fs' \<Rightarrow> (Inr (), w\<lparr>files := fs', trace := trace w @ [Rmtree d]\<rparr>))"

text \<open>The colour of the frame, step 4.\<close>

definition frame_color :: "pcb_print_options \<Rightarrow> pages_options \<Rightarrow> error + string" where
  "frame_color self p =
     (if pg_sheet_reference_color p \<noteq> [] then Inr (pg_sheet_reference_color p)
      else (case pp_color_theme_obj self of
              None \<Rightarrow> Inl (AttributeError ''_color_theme'')
            | Some theme \<Rightarrow> Inr (pcb_frame theme)))"

text \<open>
  The body of the loop over the pages, in the steps the source numbers. Steps 1 and 2:
  the plot options of the page, the plot of each layer, the plot of the frame, and
  \<^verbatim>\<open>ClosePlot\<close>.
\<close>

definition plot_page ::
  "'b externals \<Rightarrow> gs \<Rightarrow> pcb_print_options \<Rightarrow> pages_options \<Rightarrow> layer_options list
     \<Rightarrow> plot_options \<Rightarrow> 'b world \<Rightarrow> plot_options \<times> 'b world" where
  "plot_page ex g self p las po w =
     (let po1 = po\<lparr>PlotFrameRef := False, Mirror := pg_mirror p, Scale := pg_scaling p,
                    Negative := pg_negative_plot p, PlotViaOnMaskLayer := \<not> pg_tent_vias p\<rparr>;
          po2 = (if ki5 g
                 then po1\<lparr>LineWidth := FromMM ex (pg_line_width p),
                          PlotPadsOnSilkLayer := \<not> pg_exclude_pads_from_silkscreen p\<rparr>
                 else po1)
      in case plot_layers ex (pg_sheet p) las po2 w of
           (po3, w2) \<Rightarrow>
             (let po4 = (if pp_plot_sheet_reference self
                         then po3\<lparr>PlotFrameRef := True, Scale := 1\<rparr> else po3);
                  w3 = (if pp_plot_sheet_reference self
                        then plot_layer ex po4 (work_layer_id g) ''frame'' (pg_sheet p) w2
                        else w2)
              in (po4, w3\<lparr>trace := trace w3 @ [ClosePlot]\<rparr>)))"

text \<open>Steps 3 and 4: the colours of the layers and of the frame; the result is
  \<open>filelist\<close>.\<close>

definition colorize_page_files ::
  "gs \<Rightarrow> pcb_print_options \<Rightarrow> pages_options \<Rightarrow> string \<Rightarrow> layer_options list \<Rightarrow> 'b world
     \<Rightarrow> (error + string list) \<times> 'b world" where
  "colorize_page_files g self p temp_dir las w =
     and_then (colorize_layers (pcb_basename g) (pg_monochrome p) temp_dir las [] w)
       (\<lambda>filelist w5.
          if pp_plot_sheet_reference self
          then (case frame_color self p of
                  Inl e \<Rightarrow> (Inl e, w5)
                | Inr color \<Rightarrow>
                    colorize_layer_w (pcb_basename g) ''frame'' color
                      (pg_monochrome p) filelist temp_dir w5)
          else (Inr filelist, w5))"

text \<open>
  The whole body, for page number \<open>n\<close>: the name of the file of the page and the
  plot options as the body leaves them.
\<close>

definition print_page ::
  "'b externals \<Rightarrow> gs \<Rightarrow> pcb_print_options \<Rightarrow> string \<Rightarrow> nat \<Rightarrow> pages_options \<Rightarrow> plot_options
     \<Rightarrow> 'b world \<Rightarrow> (error + (string \<times> plot_options)) \<times> 'b world" where
  "print_page ex g self temp_dir n p po w =
     (let t = (if pg_title p \<noteq> [] then pg_title p else pp_title self);
          w1 = w\<lparr>board := set_title ex t (board w), trace := trace w @ [SetTitle t]\<rparr>
      in case pg_layers p of
           None \<Rightarrow> (Inl (TypeError ''type object is not iterable''), w1)
         | Some las \<Rightarrow>
             (case plot_page ex g self p las po w1 of
                (po4, w4) \<Rightarrow>
                  and_then (colorize_page_files g self p temp_dir las w4)
                    (\<lambda>filelist w6.
                       let assembly_file = pcb_basename g @ ''-'' @ str_nat n @ ''.pdf'' in
                       and_then (merge_pdf_w ex temp_dir filelist temp_dir assembly_file w6)
                         (\<lambda>u w7.
                            (Inr (assembly_file, po4),
                             w7\<lparr>board := restore_title ex (board w7),
                                trace := trace w7 @ [RestoreTitle]\<rparr>)))))"

text \<open>The loop over \<^verbatim>\<open>enumerate(self.pages)\<close>.\<close>

fun print_pages ::
  "'b externals \<Rightarrow> gs \<Rightarrow> pcb_print_options \<Rightarrow> string \<Rightarrow> nat \<Rightarrow> pages_options list
     \<Rightarrow> string list \<Rightarrow> plot_options \<Rightarrow> 'b world \<Rightarrow> (error + string list) \<times> 'b world" where
  "print_pages ex g self temp_dir n [] pages po w = (Inr pages, w)"
| "print_pages ex g self temp_dir n (p # ps) pages po w =
     and_then (print_page ex g self temp_dir n p po w)
       (\<lambda>r w'. print_pages ex g self temp_dir (n + 1) ps (pages @ [fst r]) (snd r) w')"

text \<open>
  \<open>generate_output\<close>. \<open>temp_dir\<close> is the directory that
  \<^verbatim>\<open>mkdtemp\<close> creates.
\<close>

definition generate_output ::
  "'b externals \<Rightarrow> gs \<Rightarrow> pcb_print_options \<Rightarrow> string \<Rightarrow> string \<Rightarrow> 'b world
     \<Rightarrow> (error + unit) \<times> 'b world" where
  "generate_output ex g self temp_dir output w =
     (let w0 = w\<lparr>files := (files w)(temp_dir \<mapsto> Dir), trace := trace w @ [Mkdtemp temp_dir]\<rparr>;
          po = (GetPlotOptions ex (board w0))
                 \<lparr>OutputDirectory := temp_dir, ExcludeEdgeLayer := True, UseAuxOrigin := False,
                  AutoScale := False, DrillMarksType := pp_drill_marks self\<rparr>
      in case pp_pages self of
           None \<Rightarrow> (Inl (TypeError ''type object is not iterable''), w0)
         | Some pgs \<Rightarrow>
             and_then (print_pages ex g self temp_dir 0 pgs [] po w0)
               (\<lambda>pages w1.
             and_then (create_pdf_from_pages_w ex temp_dir pages output w1)
               (\<lambda>u w2. rmtree_w temp_dir w2)))"








text \<open>
  What is assumed of the plotting engine: it writes below its output directory only.
\<close>

definition engine_confined :: "'b externals \<Rightarrow> bool" where
  "engine_confined ex =
     (\<forall>b po i s sh fs p. \<not> in_tree (OutputDirectory po) p \<longrightarrow> PlotLayer ex b po i s sh fs p = fs p)"

subsection \<open>Configuration of the \<open>pcb_print\<close> output\<close>





definition drill_marks_map :: "(string \<times> int) list" where
  "drill_marks_map = [(''none'', 0), (''small'', 1), (''full'', 2)]"











subsection \<open>Options of the \<open>blender_export\<close> output\<close>

record pcb2blender_options =
  pi_components :: bool
  pi_cut_boards :: bool
  pi_texture_dpi :: rat
  pi_center :: bool
  pi_enhance_materials :: bool
  pi_merge_materials :: bool
  pi_solder_joints :: string
  pi_stack_boards :: bool

definition PCB2BlenderOptions_init :: pcb2blender_options where
  "PCB2BlenderOptions_init =
     \<lparr>pi_components = True, pi_cut_boards = True, pi_texture_dpi = 1016, pi_center = True,
      pi_enhance_materials = True, pi_merge_materials = True, pi_solder_joints = ''SMART'',
      pi_stack_boards = True\<rparr>"

record blender_output_options =
  o_type :: string
  o_output :: string

record blender_light_options =
  li_name :: string
  li_pos_x :: rat
  li_pos_y :: rat
  li_pos_z :: rat

definition BlenderLightOptions_init :: blender_light_options where
  "BlenderLightOptions_init = \<lparr>li_name = [], li_pos_x = 0, li_pos_y = 0, li_pos_z = 0\<rparr>"

record blender_render_options =
  ro_samples :: int
  ro_resolution_x :: int
  ro_resolution_y :: int
  ro_transparent_background :: bool
  ro_background1 :: string
  ro_background2 :: string

definition BlenderRenderOptions_init :: blender_render_options where
  "BlenderRenderOptions_init =
     \<lparr>ro_samples = 10, ro_resolution_x = 1280, ro_resolution_y = 720,
      ro_transparent_background = False, ro_background1 = ''#66667F'',
      ro_background2 = ''#CCCCE5''\<rparr>"

text \<open>
  An option documented as \<^verbatim>\<open>[dict|list(dict)]\<close> holds the class while the
  user gave nothing, one object for a dictionary, a list of objects for a list. An
  option documented as \<^verbatim>\<open>[dict]\<close> is an \<open>option\<close>, \<open>None\<close> being the
  class.
\<close>

datatype 'a given = NotGiven | One 'a | Many "'a list"

text \<open>The object before \<open>config\<close> has run \<dots>\<close>

record blender_export_tree =
  bt_pcb3d :: string
  bt_pcb_import :: "pcb2blender_options option"
  bt_outputs :: "blender_output_options given"
  bt_light :: "blender_light_options given"
  bt_add_default_light :: bool
  bt_camera :: "blender_light_options option"
  bt_render_options :: "blender_render_options option"
  bt_rotate_x :: rat
  bt_rotate_y :: rat
  bt_rotate_z :: rat
  bt_view :: string
  bt_expand_id :: string

text \<open>\<dots> and after: \<open>outputs\<close> and \<open>light\<close> are lists, \<open>camera\<close> is an
  object or Python's \<^verbatim>\<open>None\<close>.\<close>

record blender_export_options =
  be_pcb3d :: string
  be_pcb_import :: pcb2blender_options
  be_outputs :: "blender_output_options list"
  be_light :: "blender_light_options list"
  be_add_default_light :: bool
  be_camera :: "blender_light_options option"
  be_render_options :: blender_render_options
  be_rotate_x :: rat
  be_rotate_y :: rat
  be_rotate_z :: rat
  be_view :: string
  be_expand_id :: string

definition views :: "(string \<times> string) list" where
  "views = [(''top'', ''z''), (''bottom'', ''Z''), (''front'', ''y''), (''rear'', ''Y''),
            (''right'', ''x''), (''left'', ''X'')]"

definition rviews :: "(string \<times> string) list" where
  "rviews = map (\<lambda>(k, v). (v, k)) views"

subsection \<open>\<open>Blender_ExportOptions.config\<close>\<close>

text \<open>
  The \<^verbatim>\<open>while\<close> loop that looks for a free suffix. \<open>light_names\<close> is the
  set of names, as the list of its elements.
\<close>

function next_light_id :: "string list \<Rightarrow> string \<Rightarrow> nat \<Rightarrow> nat" where
  "next_light_id light_names name i =
     (if name @ ''_'' @ str_nat i \<in> set light_names
      then next_light_id light_names name (i + 1) else i)"
  by pat_completeness auto
termination
proof (relation "measure (\<lambda>(light_names, name, i). 10 ^ sum_list (map length light_names) - i)")
  show "wf (measure (\<lambda>(light_names, name, i). 10 ^ sum_list (map length light_names) - i))"
    by simp
next
  fix light_names :: "string list" and name :: string and i :: nat
  assume mem: "name @ ''_'' @ str_nat i \<in> set light_names"
  have bound: "n < 10 ^ length (str_nat n)" for n :: nat
  proof (induction n rule: str_nat.induct)
    case (1 n)
    show ?case
    proof (cases "n < 10")
      case True
      then show ?thesis by (simp add: str_nat.simps[of n])
    next
      case False
      with 1 have "n div 10 < 10 ^ length (str_nat (n div 10))" by simp
      then have "n < 10 * 10 ^ length (str_nat (n div 10))" by simp
      with False show ?thesis by (simp add: str_nat.simps[of n])
    qed
  qed
  have "length (str_nat i) \<le> length (name @ ''_'' @ str_nat i)" by simp
  also have "\<dots> \<le> sum_list (map length light_names)"
    using member_le_sum_list[of "length (name @ ''_'' @ str_nat i)" "map length light_names"] mem
    by force
  finally have "(10::nat) ^ length (str_nat i) \<le> 10 ^ sum_list (map length light_names)"
    by (intro power_increasing) simp_all
  from less_le_trans[OF bound[of i] this]
  have "i < 10 ^ sum_list (map length light_names)" .
  then show "((light_names, name, i + 1), (light_names, name, i))
        \<in> measure (\<lambda>(light_names, name, i). 10 ^ sum_list (map length light_names) - i)"
    by simp
qed

declare next_light_id.simps [simp del]

text \<open>
  The loop \<^verbatim>\<open>for li in self.light\<close> under the comment
  \<^verbatim>\<open>Check light names\<close>. The body never adds to \<open>light_names\<close>, so every
  iteration sees the set as it was before the loop.
\<close>

fun check_light_names ::
  "string list \<Rightarrow> blender_light_options list \<Rightarrow> blender_light_options list" where
  "check_light_names light_names [] = []"
| "check_light_names light_names (li # rest) =
     (let name = (if li_name li \<noteq> [] then li_name li else ''kibot_light'');
          name' = (if name \<in> set light_names
                   then name @ ''_'' @ str_nat (next_light_id light_names name 2)
                   else name)
      in li\<lparr>li_name := name'\<rparr> # check_light_names light_names rest)"

text \<open>\<open>board_size\<close> is the third component of \<^verbatim>\<open>get_board_size()\<close>.\<close>

definition default_light :: "rat \<Rightarrow> blender_light_options" where
  "default_light board_size =
     BlenderLightOptions_init\<lparr>li_name := ''kibot_light'', li_pos_x := - board_size * (333 / 100),
                              li_pos_y := board_size * (333 / 100), li_pos_z := board_size * 5\<rparr>"

definition Blender_ExportOptions_config ::
  "rat \<Rightarrow> blender_export_tree \<Rightarrow> error + blender_export_options" where
  "Blender_ExportOptions_config board_size self =
     (if bt_pcb3d self = [] then
        Inl (KiPlotConfigurationError
               ''You must specify the name of the output that generates the PCB3D file'')
      else
        (case bt_outputs self of
           NotGiven \<Rightarrow> Inl (KiPlotConfigurationError ''You must specify at least one output'')
         | outs \<Rightarrow>
             (let outputs = (case outs of One o1 \<Rightarrow> [o1] | Many os \<Rightarrow> os | NotGiven \<Rightarrow> []);
                  pcb_import = (case bt_pcb_import self of
                                  None \<Rightarrow> PCB2BlenderOptions_init | Some x \<Rightarrow> x);
                  light = (case bt_light self of
                             NotGiven \<Rightarrow>
                               (if bt_add_default_light self then [default_light board_size] else [])
                           | One l \<Rightarrow> [l]
                           | Many ls \<Rightarrow> ls);
                  light' = check_light_names [] light;
                  camera = (case bt_camera self of
                              None \<Rightarrow> None
                            | Some c \<Rightarrow>
                                if li_name c = [] then Some (c\<lparr>li_name := ''kibot_camera''\<rparr>)
                                else Some c);
                  render_options = (case bt_render_options self of
                                      None \<Rightarrow> BlenderRenderOptions_init | Some r \<Rightarrow> r);
                  view = (case map_of views (bt_view self) of
                            Some v \<Rightarrow> v | None \<Rightarrow> bt_view self)
              in case map_of rviews view of
                   None \<Rightarrow> Inl (TypeError ''can only concatenate str (not NoneType) to str'')
                 | Some k \<Rightarrow>
                     Inr \<lparr>be_pcb3d = bt_pcb3d self, be_pcb_import = pcb_import,
                          be_outputs = outputs, be_light = light',
                          be_add_default_light = bt_add_default_light self,
                          be_camera = camera, be_render_options = render_options,
                          be_rotate_x = bt_rotate_x self, be_rotate_y = bt_rotate_y self,
                          be_rotate_z = bt_rotate_z self, be_view = view,
                          be_expand_id = bt_expand_id self @ ''_'' @ k\<rparr>)))"

subsection \<open>\<open>Blender_ExportOptions.run\<close>\<close>















subsection \<open>Concrete inputs\<close>

text \<open>
  Small inputs on which the properties below are exercised: a one-page document with
  a black fill, a black stroke and a red fill; a file system that holds it; an engine
  that plots a one-page document per layer; a configuration of one page with one red
  layer and the frame.
\<close>

definition demo_page :: page where
  "demo_page =
     \<lparr>contents = Some [([NumberObject 0, NumberObject 0, NumberObject 0], ''rg''),
                       ([FloatObject 0, FloatObject 0, FloatObject 0], ''RG''),
                       ([NumberObject 1, NumberObject 0, NumberObject 0], ''rg''),
                       ([], ''f'')],
      other_entries = ''A4''\<rparr>"

definition demo_page2 :: page where
  "demo_page2 = \<lparr>contents = Some [([NumberObject 0, NumberObject 0], ''m'')], other_entries = ''A3''\<rparr>"

definition demo_fs :: fsys where
  "demo_fs =
     (\<lambda>p. if p = ''/tmp/t/board-F_Cu.pdf'' then Some (File [demo_page])
          else if p = ''/tmp/t/board-B_Cu.pdf'' then Some (File [demo_page2, demo_page])
          else if p = ''/tmp/t'' then Some Dir
          else None)"

definition demo_mergePage :: "page \<Rightarrow> page \<Rightarrow> page" where
  "demo_mergePage p q =
     p\<lparr>contents := (case (contents p, contents q) of
                       (Some a, Some b) \<Rightarrow> Some (a @ b)
                     | (Some a, None) \<Rightarrow> Some a
                     | (None, c) \<Rightarrow> c)\<rparr>"

definition demo_plot_options :: plot_options where
  "demo_plot_options =
     \<lparr>OutputDirectory = [], ExcludeEdgeLayer = False, UseAuxOrigin = False, AutoScale = False,
      DrillMarksType = DrillCode 0, PlotFrameRef = False, Mirror = False, Scale = 1,
      Negative = False, PlotViaOnMaskLayer = False, LineWidth = 0, PlotPadsOnSilkLayer = False,
      PlotReference = False, PlotValue = False, PlotInvisibleText = False\<rparr>"

definition demo_plot :: "string \<Rightarrow> pdf" where
  "demo_plot sheet =
     [\<lparr>contents = Some [([NumberObject 0, NumberObject 0, NumberObject 0], ''rg''), ([], ''f'')],
       other_entries = sheet\<rparr>]"

definition demo_externals :: "string externals" where
  "demo_externals =
     \<lparr>GetPlotOptions = (\<lambda>b. demo_plot_options),
      PlotLayer = (\<lambda>b po i s sh fs.
         fs(path_join (OutputDirectory po) (''board-'' @ s @ ''.pdf'') \<mapsto> File (demo_plot sh))),
      FromMM = (\<lambda>mm. \<lfloor>mm * 1000000\<rfloor>),
      set_title = (\<lambda>t b. t),
      restore_title = (\<lambda>b. b),
      mergePage = demo_mergePage,
      compressContentStreams = (\<lambda>p. p)\<rparr>"

definition demo_gs :: gs where
  "demo_gs = \<lparr>pcb_basename = ''board'', ki5 = False, work_layer_id = 40\<rparr>"

definition demo_layer :: layer_options where
  "demo_layer =
     \<lparr>la_id = 0, la_layer = ''F.Cu'', la_suffix = ''F_Cu'', la_color = ''#ff0000'',
      la_plot_footprint_refs = True, la_plot_footprint_values = True,
      la_force_plot_invisible_refs_vals = False\<rparr>"

definition demo_pages_options :: pages_options where
  "demo_pages_options =
     \<lparr>pg_mirror = False, pg_monochrome = False, pg_scaling = 1, pg_title = [],
      pg_sheet = ''Assembly'', pg_sheet_reference_color = [], pg_line_width = 1 / 10,
      pg_negative_plot = False, pg_exclude_pads_from_silkscreen = False, pg_tent_vias = True,
      pg_layers = Some [demo_layer]\<rparr>"

definition demo_theme :: color_theme where
  "demo_theme = \<lparr>pcb_frame = ''#000000'', layer_id2color = (\<lambda>i. None)\<rparr>"

definition demo_options :: pcb_print_options where
  "demo_options =
     \<lparr>pp_output = ''board.pdf'', pp_hide_excluded = False, pp_drill_marks = DrillCode 2,
      pp_color_theme = ''_builtin_classic'', pp_plot_sheet_reference = True,
      pp_pages = Some [demo_pages_options], pp_title = [],
      pp_color_theme_obj = Some demo_theme\<rparr>"

definition demo_world :: "string world" where
  "demo_world =
     \<lparr>files = (\<lambda>p. if p = ''/out/old.pdf'' then Some (File [demo_page2]) else None),
      board = ''title'', trace = []\<rparr>"




text \<open>
  For the Blender export: a configuration with two lights of the same name, and a run
  whose PCB3D file is made by the output it depends on.
\<close>

definition two_lamps_tree :: blender_export_tree where
  "two_lamps_tree =
     \<lparr>bt_pcb3d = ''pcb3d'', bt_pcb_import = None,
      bt_outputs = One \<lparr>o_type = ''render'', o_output = ''%f-%i%I%v.%x''\<rparr>,
      bt_light = Many [BlenderLightOptions_init\<lparr>li_name := ''lamp''\<rparr>,
                       BlenderLightOptions_init\<lparr>li_name := ''lamp'', li_pos_x := 1\<rparr>],
      bt_add_default_light = True, bt_camera = None, bt_render_options = None,
      bt_rotate_x = 0, bt_rotate_y = 0, bt_rotate_z = 0, bt_view = ''top'',
      bt_expand_id = ''3D_blender''\<rparr>"





section \<open>Auxiliary facts\<close>

subsection \<open>The colour substitution\<close>

lemma colorize_operations_eq:
  "colorize_operations i ops c = take i ops @ map (recolor c) (drop i ops)"
proof (induction i ops c rule: colorize_operations.induct)
  case (1 i ops c)
  show ?case
  proof (cases "i < length ops")
    case False
    then show ?thesis by (simp add: colorize_operations.simps[of i ops c])
  next
    case True
    obtain operands operator where oi: "ops ! i = (operands, operator)" by (cases "ops ! i")
    have dr: "drop i ops = ops ! i # drop (Suc i) ops" using True by (simp add: Cons_nth_drop_Suc)
    have tk: "take (Suc i) ops = take i ops @ [ops ! i]" using True by (simp add: take_Suc_conv_app_nth)
    show ?thesis
    proof (cases "(operator = ''rg'' \<or> operator = ''RG'') \<and> eq_000 operands")
      case True2: True
      then have "colorize_operations i ops c = colorize_operations (i + 1) (ops[i := (color_operands c, snd (ops ! i))]) c"
        using True oi by (subst colorize_operations.simps) auto
      also have "\<dots> = take (i + 1) (ops[i := (color_operands c, snd (ops ! i))]) @ map (recolor c) (drop (i + 1) (ops[i := (color_operands c, snd (ops ! i))]))"
        using "1.IH"(1)[OF True oi[symmetric]] True2 by auto
      also have "\<dots> = take i ops @ map (recolor c) (drop i ops)"
        using True True2 oi dr by (simp add: take_Suc_conv_app_nth recolor_def)
      finally show ?thesis .
    next
      case False2: False
      then have "colorize_operations i ops c = colorize_operations (i + 1) ops c"
        using True oi by (subst colorize_operations.simps) auto
      also have "\<dots> = take (i + 1) ops @ map (recolor c) (drop (i + 1) ops)"
        using "1.IH"(2,3)[OF True oi[symmetric]] False2 by auto
      also have "\<dots> = take i ops @ map (recolor c) (drop i ops)"
        using True False2 oi dr tk by (auto simp add: recolor_def)
      finally show ?thesis .
    qed
  qed
qed

lemma colorize_page_ok:
  "contents p \<noteq> None \<Longrightarrow> colorize_page c p = Inr (recolor_page c p)"
  by (auto simp: colorize_page_def recolor_page_def colorize_operations_eq)

lemma colorize_pages_ok:
  "\<forall>p\<in>set ps. contents p \<noteq> None \<Longrightarrow>
   colorize_pages c ps out = Inr (out @ map (recolor_page c) ps)"
  by (induction ps arbitrary: out) (simp_all add: colorize_page_ok)

lemma colorize_pdf_ok:
  assumes "fs (path_join folder in_file) = Some (File source)"
      and "\<forall>p\<in>set source. contents p \<noteq> None"
      and "fs (path_join folder out_file) \<noteq> Some Dir"
  shows "colorize_pdf fs folder in_file out_file c =
         (Inr (), fs(path_join folder out_file \<mapsto> File (map (recolor_page c) source)))"
proof -
  have r: "open_rb fs (path_join folder in_file) = Inr source"
    using assms(1) by (simp add: open_rb_def)
  have w: "open_wb_write fs (path_join folder out_file) d = Inr (fs(path_join folder out_file \<mapsto> File d))" for d
    using assms(3) by (auto simp: open_wb_write_def split: option.splits node.splits)
  show ?thesis
    by (simp add: colorize_pdf_def r w colorize_pages_ok[OF assms(2)])
qed

lemma hex_not_hash: "hex_digit d \<noteq> None \<Longrightarrow> d \<noteq> CHR ''#''"
  by (auto simp: hex_digit_def)

lemma int16_two:
  "hex_digit a \<noteq> None \<Longrightarrow> hex_digit b \<noteq> None \<Longrightarrow>
   int16 [a, b] = Inr (16 * the (hex_digit a) + the (hex_digit b))"
  by (simp add: int16_def is_hex_def)

lemma hex_to_rgb_valid:
  assumes "valid_color s"
  shows "hex_to_rgb s = Inr (decoded_rgb s, decoded_alpha s)"
proof -
  from assms obtain ds where s: "s = CHR ''#'' # ds"
    and len: "length ds = 6 \<or> length ds = 8"
    and hx: "list_all (\<lambda>d. hex_digit d \<noteq> None) ds"
    by (auto simp: valid_color_def split: list.splits)
  from len show ?thesis
  proof
    assume "length ds = 6"
    then obtain a b c d e f where ds: "ds = [a, b, c, d, e, f]"
      by (auto simp: eval_nat_numeral length_Suc_conv)
    show ?thesis using hx
      by (simp add: s ds hex_to_rgb_def lstrip_hash_def hex_not_hash slice2_def int16_two
          decoded_rgb_def decoded_alpha_def channel_def)
  next
    assume "length ds = 8"
    then obtain a b c d e f g h where ds: "ds = [a, b, c, d, e, f, g, h]"
      by (auto simp: eval_nat_numeral length_Suc_conv)
    show ?thesis using hx
      by (simp add: s ds hex_to_rgb_def lstrip_hash_def hex_not_hash slice2_def int16_two
          decoded_rgb_def decoded_alpha_def channel_def)
  qed
qed

lemma to_gray_eq: "to_gray c = gray_of c"
  by (simp add: to_gray_def gray_of_def Let_def split: prod.splits)

lemma colorize_layer_ok:
  assumes "color \<noteq> ''#000000''" and "valid_color color"
      and "fs (path_join temp_dir (basename @ ''-'' @ suffix @ ''.pdf'')) = Some (File source)"
      and "\<forall>p\<in>set source. contents p \<noteq> None"
      and "fs (path_join temp_dir (basename @ ''-'' @ suffix @ ''-colored.pdf'')) \<noteq> Some Dir"
  shows "colorize_layer basename suffix color monochrome filelist temp_dir fs =
         (Inr (filelist @ [basename @ ''-'' @ suffix @ ''-colored.pdf'']),
          fs(path_join temp_dir (basename @ ''-'' @ suffix @ ''-colored.pdf'') \<mapsto>
             File (map (recolor_page (if monochrome then gray_of (decoded_rgb color)
                                      else decoded_rgb color)) source)))"
proof -
  note h = hex_to_rgb_valid[OF assms(2)]
  show ?thesis
    using assms(1) colorize_pdf_ok[OF assms(3,4,5)]
    by (simp add: colorize_layer_def h Let_def to_gray_eq)
qed

subsection \<open>Merging and stacking\<close>










lemma open_rb_reraise:
  "open_rb fs path = Inl e \<Longrightarrow> reraise what name e \<noteq> None"
  by (auto simp: open_rb_def reraise_def str_of_error_def split: option.splits node.splits)

lemma merge_step_reraise:
  "merge_step mp fs folder f i merged = Inl e \<Longrightarrow> reraise what name e \<noteq> None"
  by (auto simp: merge_step_def getPage0_def reraise_def dest: open_rb_reraise
      split: sum.splits list.splits if_splits option.splits)

lemma merge_step_Some:
  "merge_step mp fs folder f i merged = Inr (i', merged') \<Longrightarrow> merged' \<noteq> None \<and> 0 < i'"
  by (auto simp: merge_step_def split: sum.splits if_splits option.splits)

lemma merge_loop_keeps_bound:
  "merge_loop mp fs folder fls i merged = Inr r \<Longrightarrow> merged \<noteq> None \<Longrightarrow> r \<noteq> None"
proof (induction fls arbitrary: i merged)
  case Nil
  then show ?case by simp
next
  case (Cons f fls)
  show ?case
  proof (cases "merge_step mp fs folder f i merged")
    case (Inl e)
    then obtain e' where "reraise ''Error reading'' f e = Some e'"
      using merge_step_reraise[OF Inl, of "''Error reading''" f] by auto
    with Cons.prems Inl show ?thesis by simp
  next
    case (Inr x)
    obtain i' m' where x: "x = (i', m')" by (cases x)
    with Inr merge_step_Some[of mp fs folder f i merged i' m'] have "m' \<noteq> None" by simp
    moreover from Cons.prems Inr x have "merge_loop mp fs folder fls i' m' = Inr r" by simp
    ultimately show ?thesis using Cons.IH by blast
  qed
qed

lemma merge_loop_nonempty_bound:
  assumes "input_files \<noteq> []"
      and "merge_loop mp fs folder input_files 0 None = Inr r"
  shows "r \<noteq> None"
proof -
  obtain f fls where fl: "input_files = f # fls" using assms(1) by (cases input_files) auto
  show ?thesis
  proof (cases "merge_step mp fs folder f 0 None")
    case (Inl e)
    then obtain e' where "reraise ''Error reading'' f e = Some e'"
      using merge_step_reraise[OF Inl, of "''Error reading''" f] by auto
    with assms(2) Inl fl show ?thesis by simp
  next
    case (Inr x)
    obtain i' m' where x: "x = (i', m')" by (cases x)
    with Inr merge_step_Some[of mp fs folder f 0 None i' m'] have "m' \<noteq> None" by simp
    moreover from assms(2) Inr x fl have "merge_loop mp fs folder fls i' m' = Inr r" by simp
    ultimately show ?thesis using merge_loop_keeps_bound by blast
  qed
qed

subsection \<open>The calls of \<open>generate_output\<close>\<close>

lemma and_then_Inr:
  "and_then r f = (Inr x, s') \<Longrightarrow> \<exists>a s. r = (Inr a, s) \<and> f a s = (Inr x, s')"
  by (auto simp: and_then_def split: prod.splits sum.splits)














subsection \<open>The files \<open>generate_output\<close> touches\<close>


lemma and_then_cases:
  assumes "and_then r f = (res, s')"
  obtains e where "r = (Inl e, s')" "res = Inl e"
        | a s where "r = (Inr a, s)" "f a s = (res, s')"
  using assms by (auto simp: and_then_def split: prod.splits sum.splits)

lemma in_tree_join: "\<not> isabs b \<Longrightarrow> in_tree T (path_join T b)"
  by (auto simp: in_tree_def path_join_def)

lemma isabs_append: "\<not> isabs B \<Longrightarrow> \<not> isabs (B @ CHR ''-'' # x)"
  by (cases B) (auto simp: isabs_def)

lemma write_output_frame:
  "write_output fs path name d = (r, fs') \<Longrightarrow> p \<noteq> path \<Longrightarrow> fs' p = fs p"
  by (auto simp: write_output_def open_wb_write_def split: sum.splits option.splits node.splits)

lemma colorize_pdf_frame:
  "colorize_pdf fs folder in_file out_file c = (r, fs') \<Longrightarrow> p \<noteq> path_join folder out_file \<Longrightarrow>
   fs' p = fs p"
  by (auto simp: colorize_pdf_def open_wb_write_def split: sum.splits option.splits node.splits)

lemma colorize_layer_frame:
  assumes "colorize_layer B suf col mc fl T fs = (r, fs')" and "\<not> isabs B" and "\<not> in_tree T p"
  shows "fs' p = fs p"
proof -
  have ne: "p \<noteq> path_join T (B @ ''-'' @ suf @ ''-colored.pdf'')"
    using assms(2,3) in_tree_join[of "B @ ''-'' @ suf @ ''-colored.pdf''" T] isabs_append[of B] by auto
  show ?thesis
  proof (cases "col \<noteq> ''#000000''")
    case False
    with assms(1) show ?thesis by (simp add: colorize_layer_def)
  next
    case True
    show ?thesis
    proof (cases "hex_to_rgb col")
      case (Inl e)
      with True assms(1) show ?thesis by (simp add: colorize_layer_def)
    next
      case (Inr x)
      obtain rgb alpha where x: "x = (rgb, alpha)" by (cases x)
      obtain r1 fs1 where cp: "colorize_pdf fs T (B @ ''-'' @ suf @ ''.pdf'')
          (B @ ''-'' @ suf @ ''-colored.pdf'') (if \<not> mc then rgb else to_gray rgb) = (r1, fs1)"
        by (cases "colorize_pdf fs T (B @ ''-'' @ suf @ ''.pdf'')
          (B @ ''-'' @ suf @ ''-colored.pdf'') (if \<not> mc then rgb else to_gray rgb)")
      from colorize_pdf_frame[OF cp ne] have "fs1 p = fs p" .
      moreover have "fs' = fs1"
        using assms(1) True Inr x cp by (auto simp: colorize_layer_def Let_def split: sum.splits)
      ultimately show ?thesis by simp
    qed
  qed
qed

lemma colorize_layer_w_frame:
  "colorize_layer_w B suf col mc fl T w = (r, w') \<Longrightarrow> \<not> isabs B \<Longrightarrow> \<not> in_tree T p \<Longrightarrow>
   files w' p = files w p"
  by (auto simp: colorize_layer_w_def split: prod.splits dest: colorize_layer_frame)

lemma colorize_layers_frame:
  "colorize_layers B mc T las fl w = (r, w') \<Longrightarrow> \<not> isabs B \<Longrightarrow> \<not> in_tree T p \<Longrightarrow>
   files w' p = files w p"
proof (induction las arbitrary: fl w)
  case Nil
  then show ?case by simp
next
  case (Cons la las)
  from Cons.prems(1) show ?case
  proof (simp, elim and_then_cases)
    fix e assume "colorize_layer_w B (la_suffix la) (la_color la) mc fl T w = (Inl e, w')"
    from colorize_layer_w_frame[OF this Cons.prems(2,3)] show ?thesis .
  next
    fix a s assume a: "colorize_layer_w B (la_suffix la) (la_color la) mc fl T w = (Inr a, s)"
      and b: "colorize_layers B mc T las a s = (r, w')"
    from colorize_layer_w_frame[OF a Cons.prems(2,3)] Cons.IH[OF b Cons.prems(2,3)]
    show ?thesis by simp
  qed
qed

lemma colorize_page_files_frame:
  assumes "colorize_page_files g self pg T las w = (r, w')"
      and "\<not> isabs (pcb_basename g)" and "\<not> in_tree T p"
  shows "files w' p = files w p"
  using assms(1) unfolding colorize_page_files_def
proof (elim and_then_cases)
  fix e assume "colorize_layers (pcb_basename g) (pg_monochrome pg) T las [] w = (Inl e, w')"
  from colorize_layers_frame[OF this assms(2,3)] show ?thesis .
next
  fix a s assume a: "colorize_layers (pcb_basename g) (pg_monochrome pg) T las [] w = (Inr a, s)"
    and b: "(if pp_plot_sheet_reference self
          then case frame_color self pg of Inl e \<Rightarrow> (Inl e, s)
               | Inr color \<Rightarrow> colorize_layer_w (pcb_basename g) ''frame'' color (pg_monochrome pg) a T s
          else (Inr a, s)) = (r, w')"
  note f1 = colorize_layers_frame[OF a assms(2,3)]
  from b have "files w' p = files s p"
    by (auto split: if_splits sum.splits dest: colorize_layer_w_frame[OF _ assms(2,3)])
  with f1 show ?thesis by simp
qed

lemma plot_layer_frame:
  "engine_confined ex \<Longrightarrow> OutputDirectory po = T \<Longrightarrow> \<not> in_tree T p \<Longrightarrow>
   files (plot_layer ex po i s sh w) p = files w p"
  by (simp add: plot_layer_def engine_confined_def)

lemma plot_layers_frame:
  "plot_layers ex sheet las po w = (po', w') \<Longrightarrow>
   engine_confined ex \<Longrightarrow> OutputDirectory po = T \<Longrightarrow> \<not> in_tree T p \<Longrightarrow>
   files w' p = files w p \<and> OutputDirectory po' = T"
proof (induction las arbitrary: po w)
  case Nil
  then show ?case by simp
next
  case (Cons la las)
  define po1 where "po1 = po\<lparr>PlotReference := la_plot_footprint_refs la,
                    PlotValue := la_plot_footprint_values la,
                    PlotInvisibleText := la_force_plot_invisible_refs_vals la\<rparr>"
  have o1: "OutputDirectory po1 = T" using Cons.prems(3) by (simp add: po1_def)
  from Cons.prems(1) have
    "plot_layers ex sheet las po1 (plot_layer ex po1 (la_id la) (la_suffix la) sheet w) = (po', w')"
    by (simp add: Let_def po1_def)
  from Cons.IH[OF this Cons.prems(2) o1 Cons.prems(4)]
    plot_layer_frame[OF Cons.prems(2) o1 Cons.prems(4)]
  show ?case by simp
qed

lemma plot_page_frame:
  assumes "plot_page ex g self pg las po w = (po', w')"
      and "engine_confined ex" and "OutputDirectory po = T" and "\<not> in_tree T p"
  shows "files w' p = files w p \<and> OutputDirectory po' = T"
proof -
  define po2 where "po2 = (let po1 = po\<lparr>PlotFrameRef := False, Mirror := pg_mirror pg, Scale := pg_scaling pg,
                    Negative := pg_negative_plot pg, PlotViaOnMaskLayer := \<not> pg_tent_vias pg\<rparr> in
                 if ki5 g
                 then po1\<lparr>LineWidth := FromMM ex (pg_line_width pg),
                          PlotPadsOnSilkLayer := \<not> pg_exclude_pads_from_silkscreen pg\<rparr>
                 else po1)"
  have o2: "OutputDirectory po2 = T" using assms(3) by (simp add: po2_def Let_def)
  obtain po3 w2 where pl: "plot_layers ex (pg_sheet pg) las po2 w = (po3, w2)"
    by (cases "plot_layers ex (pg_sheet pg) las po2 w")
  from plot_layers_frame[OF pl assms(2) o2 assms(4)]
  have f2: "files w2 p = files w p" and o3: "OutputDirectory po3 = T" by simp_all
  have "plot_page ex g self pg las po w =
        (let po4 = (if pp_plot_sheet_reference self
                         then po3\<lparr>PlotFrameRef := True, Scale := 1\<rparr> else po3);
                  w3 = (if pp_plot_sheet_reference self
                        then plot_layer ex po4 (work_layer_id g) ''frame'' (pg_sheet pg) w2
                        else w2)
              in (po4, w3\<lparr>trace := trace w3 @ [ClosePlot]\<rparr>))"
    using pl by (simp add: plot_page_def po2_def Let_def)
  with assms(1) show ?thesis
    using f2 o3 plot_layer_frame[OF assms(2) _ assms(4), of "po3\<lparr>PlotFrameRef := True, Scale := 1\<rparr>"]
    by (auto simp add: Let_def split: if_splits)
qed

lemma merge_pdf_frame:
  "merge_pdf mp fs d1 fl d2 out = (r, fs') \<Longrightarrow> p \<noteq> path_join d2 out \<Longrightarrow> fs' p = fs p"
  by (auto simp: merge_pdf_def split: sum.splits option.splits dest: write_output_frame)

lemma merge_pdf_w_frame:
  "merge_pdf_w ex d1 fl d2 out w = (r, w') \<Longrightarrow> p \<noteq> path_join d2 out \<Longrightarrow> files w' p = files w p"
  by (auto simp: merge_pdf_w_def split: prod.splits dest: merge_pdf_frame)

lemma print_page_frame:
  assumes run: "print_page ex g self T n pg po w = (res, w')"
      and "engine_confined ex" and "OutputDirectory po = T" and "\<not> in_tree T p"
      and "\<not> isabs (pcb_basename g)"
  shows "files w' p = files w p \<and> (\<forall>r. res = Inr r \<longrightarrow> OutputDirectory (snd r) = T)"
proof (cases "pg_layers pg")
  case None
  with run show ?thesis by (auto simp add: print_page_def Let_def)
next
  case (Some las)
  define w1 where "w1 = w\<lparr>board := set_title ex (if pg_title pg \<noteq> [] then pg_title pg else pp_title self) (board w),
       trace := trace w @ [SetTitle (if pg_title pg \<noteq> [] then pg_title pg else pp_title self)]\<rparr>"
  obtain po4 w4 where pl: "plot_page ex g self pg las po w1 = (po4, w4)"
    by (cases "plot_page ex g self pg las po w1")
  from plot_page_frame[OF pl assms(2,3,4)]
  have f4: "files w4 p = files w p" and o4: "OutputDirectory po4 = T" by (simp_all add: w1_def)
  have ne: "p \<noteq> path_join T (pcb_basename g @ ''-'' @ str_nat n @ ''.pdf'')"
    using assms(4,5) in_tree_join[of "pcb_basename g @ ''-'' @ str_nat n @ ''.pdf''" T]
      isabs_append[of "pcb_basename g"] by auto
  from run have run': "and_then (colorize_page_files g self pg T las w4)
       (\<lambda>filelist w6.
          and_then (merge_pdf_w ex T filelist T (pcb_basename g @ ''-'' @ str_nat n @ ''.pdf'') w6)
            (\<lambda>u w7. (Inr (pcb_basename g @ ''-'' @ str_nat n @ ''.pdf'', po4),
                      w7\<lparr>board := restore_title ex (board w7), trace := trace w7 @ [RestoreTitle]\<rparr>)))
       = (res, w')"
    by (simp add: print_page_def Let_def Some w1_def[symmetric] pl)
  then show ?thesis
  proof (elim and_then_cases)
    fix e assume "colorize_page_files g self pg T las w4 = (Inl e, w')" "res = Inl e"
    with colorize_page_files_frame[OF this(1) assms(5,4)] f4 show ?thesis by simp
  next
    fix e fl w6 assume c: "colorize_page_files g self pg T las w4 = (Inr fl, w6)"
      and m: "merge_pdf_w ex T fl T (pcb_basename g @ ''-'' @ str_nat n @ ''.pdf'') w6 = (Inl e, w')"
      and "res = Inl e"
    with colorize_page_files_frame[OF c assms(5,4)] merge_pdf_w_frame[OF m ne] f4
    show ?thesis by simp
  next
    fix fl w6 u w7 assume c: "colorize_page_files g self pg T las w4 = (Inr fl, w6)"
      and m: "merge_pdf_w ex T fl T (pcb_basename g @ ''-'' @ str_nat n @ ''.pdf'') w6 = (Inr u, w7)"
      and fin: "(Inr (pcb_basename g @ ''-'' @ str_nat n @ ''.pdf'', po4),
                  w7\<lparr>board := restore_title ex (board w7), trace := trace w7 @ [RestoreTitle]\<rparr>) = (res, w')"
    with colorize_page_files_frame[OF c assms(5,4)] merge_pdf_w_frame[OF m ne] f4 o4
    show ?thesis by auto
  qed
qed

lemma print_pages_frame:
  assumes "engine_confined ex" and "\<not> in_tree T p" and "\<not> isabs (pcb_basename g)"
  shows "print_pages ex g self T n ps pages po w = (res, w') \<Longrightarrow> OutputDirectory po = T \<Longrightarrow>
         files w' p = files w p"
proof (induction ps arbitrary: n pages po w)
  case Nil
  then show ?case by simp
next
  case (Cons pg ps)
  from Cons.prems(1) show ?case
  proof (simp, elim and_then_cases)
    fix e assume "print_page ex g self T n pg po w = (Inl e, w')"
    from print_page_frame[OF this assms(1) Cons.prems(2) assms(2,3)] show ?thesis by simp
  next
    fix r w1 assume a: "print_page ex g self T n pg po w = (Inr r, w1)"
      and b: "print_pages ex g self T (Suc n) ps (pages @ [fst r]) (snd r) w1 = (res, w')"
    from print_page_frame[OF a assms(1) Cons.prems(2) assms(2,3)]
    have "OutputDirectory (snd r) = T" "files w1 p = files w p" by simp_all
    with Cons.IH[of "Suc n" "pages @ [fst r]" "snd r" w1] b show ?thesis by simp
  qed
qed

lemma create_pdf_from_pages_w_frame:
  "create_pdf_from_pages_w ex d fl out w = (r, w') \<Longrightarrow> p \<noteq> out \<Longrightarrow> files w' p = files w p"
  by (auto simp: create_pdf_from_pages_w_def create_pdf_from_pages_def
      split: prod.splits sum.splits dest: write_output_frame)

lemma create_pdf_from_pages_w_written:
  "create_pdf_from_pages_w ex d fl out w = (Inr u, w') \<Longrightarrow> \<exists>doc. files w' out = Some (File doc)"
  by (auto simp: create_pdf_from_pages_w_def create_pdf_from_pages_def write_output_def
      open_wb_write_def reraise_def str_of_error_def
      split: prod.splits sum.splits option.splits node.splits if_splits)

lemma rmtree_w_files:
  "rmtree_w T w = (Inr u, w') \<Longrightarrow> files w' = (\<lambda>p. if in_tree T p then None else files w p)"
  by (auto simp: rmtree_w_def rmtree_def split: sum.splits option.splits node.splits)

lemma generate_output_files:
  assumes ok: "generate_output ex g self T output w = (Inr (), w')"
      and eng: "engine_confined ex" and nabs: "\<not> isabs (pcb_basename g)"
  shows "(\<forall>p. in_tree T p \<longrightarrow> files w' p = None) \<and>
         (\<forall>p. \<not> in_tree T p \<and> p \<noteq> output \<longrightarrow> files w' p = files w p) \<and>
         (\<not> in_tree T output \<longrightarrow> (\<exists>doc. files w' output = Some (File doc)))"
proof -
  from ok obtain pgs where pgs: "pp_pages self = Some pgs"
    by (cases "pp_pages self") (auto simp: generate_output_def Let_def)
  define po where "po = (GetPlotOptions ex (board w))\<lparr>OutputDirectory := T, ExcludeEdgeLayer := True,
             UseAuxOrigin := False, AutoScale := False, DrillMarksType := pp_drill_marks self\<rparr>"
  define w0 where "w0 = w\<lparr>files := (files w)(T \<mapsto> Dir), trace := trace w @ [Mkdtemp T]\<rparr>"
  from ok[unfolded generate_output_def Let_def pgs, simplified]
  obtain pages w1 u w2 where
    a: "print_pages ex g self T 0 pgs [] po w0 = (Inr pages, w1)"
    and b: "create_pdf_from_pages_w ex T pages output w1 = (Inr u, w2)"
    and c: "rmtree_w T w2 = (Inr (), w')"
    unfolding po_def w0_def by (auto dest!: and_then_Inr)
  have opo: "OutputDirectory po = T" by (simp add: po_def)
  note fin = rmtree_w_files[OF c]
  have outside: "files w2 p = files w p" if "\<not> in_tree T p" "p \<noteq> output" for p
  proof -
    have "files w1 p = files w0 p"
      using print_pages_frame[OF eng that(1) nabs a opo] by simp
    moreover have "files w2 p = files w1 p"
      using create_pdf_from_pages_w_frame[OF b that(2)] by simp
    moreover have "files w0 p = files w p"
      using that(1) by (auto simp: w0_def in_tree_def)
    ultimately show ?thesis by simp
  qed
  show ?thesis
    using fin outside create_pdf_from_pages_w_written[OF b] by auto
qed

subsection \<open>Configuration and the Blender export\<close>









lemma map_of_drill:
  "v = ''none'' \<or> v = ''small'' \<or> v = ''full'' \<Longrightarrow>
   map_of drill_marks_map v = Some (if v = ''none'' then 0 else if v = ''small'' then 1 else 2)"
  by (auto simp: drill_marks_map_def)



lemma check_light_names_empty:
  "check_light_names [] ls =
   map (\<lambda>li. li\<lparr>li_name := (if li_name li \<noteq> [] then li_name li else ''kibot_light'')\<rparr>) ls"
  by (induction ls) (simp_all add: Let_def)









section \<open>The claims\<close>







text \<open>
  Claim C4. For a layer whose colour is not \<^verbatim>\<open>#000000\<close>, \<open>colorize_layer\<close>
  replaces the black of the plotted file by the colour decoded from the hexadecimal
  digits, or, on a monochrome page, by the gray whose three components are the average
  of the decoded components, and appends the name of the coloured file to the list.
  Stated for a colour of the form \<^verbatim>\<open>#rrggbb\<close> or \<^verbatim>\<open>#rrggbbaa\<close> and a
  plotted file that can be read.
\<close>

theorem colorize_layer_substitutes_color:
  assumes "color \<noteq> ''#000000''" and "valid_color color"
      and "fs (path_join temp_dir (basename @ ''-'' @ suffix @ ''.pdf'')) = Some (File source)"
      and "\<forall>p\<in>set source. contents p \<noteq> None"
      and "fs (path_join temp_dir (basename @ ''-'' @ suffix @ ''-colored.pdf'')) \<noteq> Some Dir"
  shows "colorize_layer basename suffix color monochrome filelist temp_dir fs =
         (Inr (filelist @ [basename @ ''-'' @ suffix @ ''-colored.pdf'']),
          fs(path_join temp_dir (basename @ ''-'' @ suffix @ ''-colored.pdf'') \<mapsto>
             File (map (recolor_page (if monochrome then gray_of (decoded_rgb color)
                                      else decoded_rgb color)) source)))"
  using assms by (rule colorize_layer_ok)

theorem colorize_layer_substitutes_color_witness:
  "colorize_layer ''board'' ''F_Cu'' ''#ff0000'' True [] ''/tmp/t'' demo_fs =
     (Inr [''board-F_Cu-colored.pdf''],
      demo_fs(''/tmp/t/board-F_Cu-colored.pdf'' \<mapsto>
        File [\<lparr>contents = Some [([FloatObject (1 / 3), FloatObject (1 / 3), FloatObject (1 / 3)], ''rg''),
                                ([FloatObject (1 / 3), FloatObject (1 / 3), FloatObject (1 / 3)], ''RG''),
                                ([NumberObject 1, NumberObject 0, NumberObject 0], ''rg''),
                                ([], ''f'')],
               other_entries = ''A4''\<rparr>]))"
proof -
  have h1: "''#ff0000'' \<noteq> ''#000000''" by simp
  have h2: "valid_color ''#ff0000''" by (simp add: valid_color_def hex_digit_def)
  have h3: "demo_fs (path_join ''/tmp/t'' (''board'' @ ''-'' @ ''F_Cu'' @ ''.pdf'')) = Some (File [demo_page])"
    by (simp add: demo_fs_def path_join_def isabs_def)
  have h4: "\<forall>p\<in>set [demo_page]. contents p \<noteq> None"
    by (simp add: demo_page_def)
  have h5: "demo_fs (path_join ''/tmp/t'' (''board'' @ ''-'' @ ''F_Cu'' @ ''-colored.pdf'')) \<noteq> Some Dir"
    by (simp add: demo_fs_def path_join_def isabs_def)
  have rgb: "decoded_rgb ''#ff0000'' = (1, 0, 0)"
    by (simp add: decoded_rgb_def channel_def hex_digit_def)
  from colorize_layer_substitutes_color[OF h1 h2 h3 h4 h5, of True "[]"] show ?thesis
    by (simp add: rgb gray_of_def path_join_def isabs_def recolor_page_def recolor_def eq_000_def
        color_operands_def demo_page_def)
qed








text \<open>
  Claim C8. When \<open>generate_output\<close> has completed, nothing is left at or below the
  temporary directory, every path outside it other than the output is as it was
  before, and the output document exists. Stated for an engine that writes below its
  output directory only and a base name of the board that is not an absolute path.
\<close>

theorem generate_output_removes_temp_dir:
  assumes "generate_output ex g self temp_dir output w = (Inr (), w')"
      and "engine_confined ex" and "\<not> isabs (pcb_basename g)"
  shows "(\<forall>p. in_tree temp_dir p \<longrightarrow> files w' p = None) \<and>
         (\<forall>p. \<not> in_tree temp_dir p \<and> p \<noteq> output \<longrightarrow> files w' p = files w p) \<and>
         (\<not> in_tree temp_dir output \<longrightarrow> (\<exists>doc. files w' output = Some (File doc)))"
  using assms by (rule generate_output_files)

theorem generate_output_removes_temp_dir_witness:
  "files (snd (generate_output demo_externals demo_gs demo_options ''/tmp/t'' ''/out/board.pdf''
                 demo_world)) ''/tmp/t/board-F_Cu.pdf'' = None \<and>
   files (snd (generate_output demo_externals demo_gs demo_options ''/tmp/t'' ''/out/board.pdf''
                 demo_world)) ''/out/old.pdf'' = Some (File [demo_page2]) \<and>
   (\<exists>doc. files (snd (generate_output demo_externals demo_gs demo_options ''/tmp/t''
                        ''/out/board.pdf'' demo_world)) ''/out/board.pdf'' = Some (File doc))"
proof -
  have ok: "fst (generate_output demo_externals demo_gs demo_options ''/tmp/t'' ''/out/board.pdf''
                   demo_world) = Inr ()"
    by code_simp
  then have run: "generate_output demo_externals demo_gs demo_options ''/tmp/t'' ''/out/board.pdf''
        demo_world =
      (Inr (), snd (generate_output demo_externals demo_gs demo_options ''/tmp/t''
                      ''/out/board.pdf'' demo_world))"
    by (metis prod.collapse)
  have eng: "engine_confined demo_externals"
    unfolding engine_confined_def
  proof (intro allI impI)
    fix b :: string and po :: plot_options and i s sh and fs :: fsys and p
    assume out: "\<not> in_tree (OutputDirectory po) p"
    have "\<not> isabs (''board-'' @ s @ ''.pdf'')" by (simp add: isabs_def)
    from in_tree_join[OF this, of "OutputDirectory po"] out
    have "p \<noteq> path_join (OutputDirectory po) (''board-'' @ s @ ''.pdf'')" by auto
    then show "PlotLayer demo_externals b po i s sh fs p = fs p"
      by (simp add: demo_externals_def)
  qed
  have nabs: "\<not> isabs (pcb_basename demo_gs)" by (simp add: demo_gs_def isabs_def)
  have t1: "in_tree ''/tmp/t'' ''/tmp/t/board-F_Cu.pdf''" by (simp add: in_tree_def)
  have t2: "\<not> in_tree ''/tmp/t'' ''/out/old.pdf''" by (simp add: in_tree_def)
  have t3: "\<not> in_tree ''/tmp/t'' ''/out/board.pdf''" by (simp add: in_tree_def)
  from generate_output_removes_temp_dir[OF run eng nabs] t1 t2 t3 show ?thesis
    by (simp add: demo_world_def)
qed

text \<open>
  Claim C9. \<open>merge_pdf\<close> is well defined for a non-empty list of input files only.
  With the empty list the variable \<open>merged_page\<close> is never assigned: adding it to
  the writer fails, no check comes before that, and nothing is written. With a
  non-empty list, a loop that has ended has assigned \<open>merged_page\<close>, and that page
  is what is added to the writer and written.
\<close>

theorem merge_pdf_needs_an_input:
  "merge_pdf mp fs input_folder [] output_folder output_file =
     (Inl (UnboundLocalError ''merged_page''), fs)
   \<and> (\<forall>r. input_files \<noteq> [] \<and> merge_loop mp fs input_folder input_files 0 None = Inr r \<longrightarrow>
         (\<exists>merged_page. r = Some merged_page \<and>
            merge_pdf mp fs input_folder input_files output_folder output_file =
              write_output fs (path_join output_folder output_file) output_file [merged_page]))"
proof (intro conjI allI impI)
  show "merge_pdf mp fs input_folder [] output_folder output_file =
     (Inl (UnboundLocalError ''merged_page''), fs)"
    by (simp add: merge_pdf_def)
next
  fix r
  assume a: "input_files \<noteq> [] \<and> merge_loop mp fs input_folder input_files 0 None = Inr r"
  with merge_loop_nonempty_bound[of input_files mp fs input_folder r]
  obtain m where "r = Some m" by auto
  with a show "\<exists>merged_page. r = Some merged_page \<and>
            merge_pdf mp fs input_folder input_files output_folder output_file =
              write_output fs (path_join output_folder output_file) output_file [merged_page]"
    by (simp add: merge_pdf_def)
qed

theorem merge_pdf_needs_an_input_witness:
  "merge_pdf demo_mergePage demo_fs ''/tmp/t'' [] ''/tmp/t'' ''board-0.pdf'' =
     (Inl (UnboundLocalError ''merged_page''), demo_fs)
   \<and> merge_loop demo_mergePage demo_fs ''/tmp/t'' [''board-B_Cu.pdf''] 0 None = Inr (Some demo_page2)
   \<and> merge_pdf demo_mergePage demo_fs ''/tmp/t'' [''board-B_Cu.pdf''] ''/tmp/t'' ''board-0.pdf'' =
       (Inr (), demo_fs(''/tmp/t/board-0.pdf'' \<mapsto> File [demo_page2]))"
proof -
  have l: "merge_loop demo_mergePage demo_fs ''/tmp/t'' [''board-B_Cu.pdf''] 0 None
           = Inr (Some demo_page2)"
    by (simp add: merge_step_def open_rb_def getPage0_def demo_fs_def path_join_def isabs_def)
  have w: "write_output demo_fs (path_join ''/tmp/t'' ''board-0.pdf'') ''board-0.pdf'' [demo_page2]
           = (Inr (), demo_fs(''/tmp/t/board-0.pdf'' \<mapsto> File [demo_page2]))"
    by (simp add: write_output_def open_wb_write_def demo_fs_def path_join_def isabs_def)
  from merge_pdf_needs_an_input[of demo_mergePage demo_fs "''/tmp/t''" "''/tmp/t''"
      "''board-0.pdf''" "[''board-B_Cu.pdf'']"] l w
  show ?thesis by simp
qed

text \<open>
  Claim C10 says that after \<open>Blender_ExportOptions.config\<close> the lights have names
  that differ from one another. The loop never adds a name to \<open>light_names\<close>, so a
  name that has been used is not recognised: two lights named \<^verbatim>\<open>lamp\<close> keep
  that name.
\<close>

theorem blender_config_keeps_equal_light_names:
  "(case Blender_ExportOptions_config 1 two_lamps_tree of
      Inl e \<Rightarrow> []
    | Inr self \<Rightarrow> map li_name (be_light self)) = [''lamp'', ''lamp'']"
  by (simp add: Blender_ExportOptions_config_def two_lamps_tree_def Let_def views_def rviews_def
      BlenderLightOptions_init_def)

end
